theory Spec2Isabelle
  imports Main "HOL-Library.Multiset"
begin

section \<open>Python values and exceptions\<close>

text \<open>
  The values that \<^verbatim>\<open>response.json()\<close> hands to \<^verbatim>\<open>get_weather\<close>. A Python float is kept
  as mantissa and binary exponent (\<open>JFloat m e\<close> stands for \<open>m * 2 ^ e\<close>); the program
  never computes with one, it only tests and copies them. An object is the association
  list of the parsed dict, looked up with \<open>map_of\<close>.
\<close>

datatype json =
    JNull
  | JBool bool
  | JInt int
  | JFloat int int
  | JStr string
  | JArr "json list"
  | JObj "(string \<times> json) list"

text \<open>
  The exceptions that the statements of \<^verbatim>\<open>app.py\<close> can raise. \<open>ToolExecutionError\<close> is the
  wrapper the specification names; no statement of the source raises or constructs it.
\<close>

datatype exn =
    KeyError string
  | IndexError
  | TypeError
  | AttributeError
  | ValueError string
  | JSONDecodeError
  | OverflowError
  | ConnectionError string
  | RuntimeError string
  | StreamlitSecretNotFoundError
  | ToolExecutionError exn



text \<open>Python's truth value of a JSON value (\<^verbatim>\<open>if closest:\<close>).\<close>

fun truthy :: "json \<Rightarrow> bool" where
  "truthy JNull = False"
| "truthy (JBool b) = b"
| "truthy (JInt i) = (i \<noteq> 0)"
| "truthy (JFloat m e) = (m \<noteq> 0)"
| "truthy (JStr s) = (s \<noteq> [])"
| "truthy (JArr xs) = (xs \<noteq> [])"
| "truthy (JObj kvs) = (kvs \<noteq> [])"

text \<open>Truth value of an optional string argument (\<^verbatim>\<open>if date:\<close>, \<^verbatim>\<open>all([...])\<close>).\<close>

fun truthy_str :: "string option \<Rightarrow> bool" where
  "truthy_str None = False"
| "truthy_str (Some s) = (s \<noteq> [])"

text \<open>\<^verbatim>\<open>x[k]\<close> with a string key \<open>k\<close>.\<close>

fun subscript :: "json \<Rightarrow> string \<Rightarrow> exn + json" where
  "subscript (JObj kvs) k =
     (case map_of kvs k of None \<Rightarrow> Inl (KeyError k) | Some v \<Rightarrow> Inr v)"
| "subscript _ k = Inl TypeError"

text \<open>\<^verbatim>\<open>x[0]\<close>: a dict parsed from JSON has string keys only, so \<open>0\<close> is a missing key.\<close>

fun subscript_0 :: "json \<Rightarrow> exn + json" where
  "subscript_0 (JArr []) = Inl IndexError"
| "subscript_0 (JArr (x # xs)) = Inr x"
| "subscript_0 (JStr []) = Inl IndexError"
| "subscript_0 (JStr (c # cs)) = Inr (JStr [c])"
| "subscript_0 (JObj kvs) = Inl (KeyError ''0'')"
| "subscript_0 _ = Inl TypeError"

text \<open>\<^verbatim>\<open>data.get('list', [])\<close>: only a dict has the method.\<close>

fun get_list :: "json \<Rightarrow> exn + json" where
  "get_list (JObj kvs) =
     (case map_of kvs ''list'' of None \<Rightarrow> Inr (JArr []) | Some v \<Rightarrow> Inr v)"
| "get_list _ = Inl AttributeError"

text \<open>The items that iterating over a value yields: elements, keys or characters.\<close>

fun iterate :: "json \<Rightarrow> exn + json list" where
  "iterate (JArr xs) = Inr xs"
| "iterate (JObj kvs) = Inr (map (\<lambda>kv. JStr (fst kv)) kvs)"
| "iterate (JStr s) = Inr (map (\<lambda>c. JStr [c]) s)"
| "iterate _ = Inl TypeError"

text \<open>
  The loop of the builtin \<^verbatim>\<open>min(iterable, key=..., default=None)\<close>: the key of every item
  is computed in order, the first error ends the call, and an item replaces the current
  best only when its key is strictly smaller.
\<close>

fun min_loop :: "('a \<Rightarrow> exn + int) \<Rightarrow> ('a \<times> int) option \<Rightarrow> 'a list \<Rightarrow> exn + ('a \<times> int) option" where
  "min_loop key best [] = Inr best"
| "min_loop key best (item # rest) =
     (case key item of
        Inl e \<Rightarrow> Inl e
      | Inr val \<Rightarrow>
          (case best of
             None \<Rightarrow> min_loop key (Some (item, val)) rest
           | Some (minitem, minval) \<Rightarrow>
               if val < minval then min_loop key (Some (item, val)) rest
               else min_loop key best rest))"

definition py_min :: "('a \<Rightarrow> exn + int) \<Rightarrow> 'a list \<Rightarrow> exn + 'a option" where
  "py_min key xs =
     (case min_loop key None xs of Inl e \<Rightarrow> Inl e | Inr best \<Rightarrow> Inr (map_option fst best))"

text \<open>\<^verbatim>\<open>str(n)\<close> of an int, as the f-string renders the status code.\<close>

function str_nat :: "nat \<Rightarrow> string" where
  "str_nat n =
     (if n < 10 then [char_of (48 + n)]
      else str_nat (n div 10) @ [char_of (48 + n mod 10)])"
  by pat_completeness auto
termination
  by (relation "measure (\<lambda>n. n)") auto

declare str_nat.simps [simp del]

definition str_int :: "int \<Rightarrow> string" where
  "str_int i = (if i < 0 then CHR ''-'' # str_nat (nat (- i)) else str_nat (nat i))"

text \<open>
  Reading a decimal text back, as \<^verbatim>\<open>int(s)\<close> does for an optional sign and digits; it serves
  to show that \<open>str_int\<close> loses nothing of the number.
\<close>

definition nat_of_digits :: "string \<Rightarrow> nat" where
  "nat_of_digits s = foldl (\<lambda>acc c. 10 * acc + (of_char c - 48)) 0 s"

fun int_of_str :: "string \<Rightarrow> int" where
  "int_of_str [] = 0"
| "int_of_str (c # cs) =
     (if c = CHR ''-'' then - int (nat_of_digits cs) else int (nat_of_digits (c # cs)))"

section \<open>The weather tool\<close>

text \<open>
  A naive \<^verbatim>\<open>datetime\<close> is its position on the local calendar in microseconds, so that
  the difference of two of them and its \<^verbatim>\<open>abs\<close> are integer arithmetic.
\<close>

type_synonym datetime = int

record response =
  status_code :: int
  json_body :: "exn + json"

text \<open>
  The library calls of \<^verbatim>\<open>get_weather\<close>, taken as parameters: \<^verbatim>\<open>requests.get\<close>,
  \<^verbatim>\<open>datetime.strptime(_, "%Y-%m-%d")\<close> (\<open>None\<close> when the text does not match the format),
  \<^verbatim>\<open>datetime.fromtimestamp\<close>, \<^verbatim>\<open>strftime("%Y-%m-%d %H:%M")\<close>, \<^verbatim>\<open>json.dumps\<close>, and the
  module constant \<^verbatim>\<open>OPENWEATHER_API_KEY\<close>. \<open>json_body\<close> of a response is what
  \<^verbatim>\<open>response.json()\<close> returns or raises.
\<close>

record library =
  requests_get :: "string \<Rightarrow> exn + response"
  strptime :: "string \<Rightarrow> datetime option"
  fromtimestamp :: "json \<Rightarrow> exn + datetime"
  strftime :: "datetime \<Rightarrow> string"
  dumps :: "json \<Rightarrow> string"
  OPENWEATHER_API_KEY :: string

definition base_url :: string where
  "base_url = ''https://api.openweathermap.org/data/2.5/''"

definition forecast_url :: "library \<Rightarrow> string \<Rightarrow> string" where
  "forecast_url L location =
     base_url @ ''forecast?q='' @ location @ ''&appid='' @ OPENWEATHER_API_KEY L @ ''&units=metric''"

definition weather_url :: "library \<Rightarrow> string \<Rightarrow> string" where
  "weather_url L location =
     base_url @ ''weather?q='' @ location @ ''&appid='' @ OPENWEATHER_API_KEY L @ ''&units=metric''"

definition request_url :: "library \<Rightarrow> string \<Rightarrow> string option \<Rightarrow> string" where
  "request_url L location date =
     (if truthy_str date then forecast_url L location else weather_url L location)"

text \<open>The key of line 51: \<^verbatim>\<open>abs(datetime.fromtimestamp(f['dt']) - target_dt)\<close>.\<close>

definition time_distance :: "library \<Rightarrow> datetime \<Rightarrow> json \<Rightarrow> exn + int" where
  "time_distance L target_dt f =
     (case subscript f ''dt'' of
        Inl e \<Rightarrow> Inl e
      | Inr ts \<Rightarrow>
          (case fromtimestamp L ts of
             Inl e \<Rightarrow> Inl e
           | Inr d \<Rightarrow> Inr (\<bar>d - target_dt\<bar>)))"

text \<open>Lines 53 to 58: the fields are read in the order of the dict display.\<close>

definition forecast_summary :: "library \<Rightarrow> json \<Rightarrow> exn + string" where
  "forecast_summary L closest =
     (case subscript closest ''dt'' of Inl e \<Rightarrow> Inl e | Inr ts \<Rightarrow>
     (case fromtimestamp L ts of Inl e \<Rightarrow> Inl e | Inr d \<Rightarrow>
     (case subscript closest ''main'' of Inl e \<Rightarrow> Inl e | Inr m \<Rightarrow>
     (case subscript m ''temp'' of Inl e \<Rightarrow> Inl e | Inr temp \<Rightarrow>
     (case subscript closest ''weather'' of Inl e \<Rightarrow> Inl e | Inr w \<Rightarrow>
     (case subscript_0 w of Inl e \<Rightarrow> Inl e | Inr w0 \<Rightarrow>
     (case subscript w0 ''description'' of Inl e \<Rightarrow> Inl e | Inr description \<Rightarrow>
     (case subscript closest ''main'' of Inl e \<Rightarrow> Inl e | Inr m' \<Rightarrow>
     (case subscript m' ''humidity'' of Inl e \<Rightarrow> Inl e | Inr humidity \<Rightarrow>
        Inr (dumps L (JObj [(''date'', JStr (strftime L d)), (''temp'', temp),
                            (''weather'', description), (''humidity'', humidity)])))))))))))"

text \<open>Lines 62 to 66.\<close>

definition current_summary :: "library \<Rightarrow> json \<Rightarrow> exn + string" where
  "current_summary L data =
     (case subscript data ''main'' of Inl e \<Rightarrow> Inl e | Inr m \<Rightarrow>
     (case subscript m ''temp'' of Inl e \<Rightarrow> Inl e | Inr temp \<Rightarrow>
     (case subscript data ''weather'' of Inl e \<Rightarrow> Inl e | Inr w \<Rightarrow>
     (case subscript_0 w of Inl e \<Rightarrow> Inl e | Inr w0 \<Rightarrow>
     (case subscript w0 ''description'' of Inl e \<Rightarrow> Inl e | Inr description \<Rightarrow>
     (case subscript data ''main'' of Inl e \<Rightarrow> Inl e | Inr m' \<Rightarrow>
     (case subscript m' ''humidity'' of Inl e \<Rightarrow> Inl e | Inr humidity \<Rightarrow>
        Inr (dumps L (JObj [(''temp'', temp), (''weather'', description),
                            (''humidity'', humidity)])))))))))"

text \<open>Lines 49 to 60: the branch taken when a date was given.\<close>

definition forecast_branch :: "library \<Rightarrow> string \<Rightarrow> json \<Rightarrow> exn + string" where
  "forecast_branch L date data =
     (case strptime L date of
        None \<Rightarrow> Inl (ValueError date)
      | Some target_dt \<Rightarrow>
          (case get_list data of Inl e \<Rightarrow> Inl e | Inr forecasts \<Rightarrow>
          (case iterate forecasts of Inl e \<Rightarrow> Inl e | Inr items \<Rightarrow>
          (case py_min (time_distance L target_dt) items of Inl e \<Rightarrow> Inl e | Inr closest \<Rightarrow>
             (case closest of
                None \<Rightarrow> Inr ''No forecast available.''
              | Some c \<Rightarrow>
                  if truthy c then forecast_summary L c
                  else Inr ''No forecast available.'')))))"

definition get_weather :: "library \<Rightarrow> string \<Rightarrow> string option \<Rightarrow> exn + string" where
  "get_weather L location date =
     (case requests_get L (request_url L location date) of
        Inl e \<Rightarrow> Inl e
      | Inr response \<Rightarrow>
          if status_code response = 200 then
            (case json_body response of
               Inl e \<Rightarrow> Inl e
             | Inr data \<Rightarrow>
                 (case date of
                    Some d \<Rightarrow> if d \<noteq> [] then forecast_branch L d data else current_summary L data
                  | None \<Rightarrow> current_summary L data))
          else Inr (''Error fetching weather: '' @ str_int (status_code response)))"

section \<open>The plan store\<close>

text \<open>
  A row of the table \<^verbatim>\<open>plans\<close>. \<open>created_at\<close> is the reading of \<^verbatim>\<open>CURRENT_TIMESTAMP\<close> at
  the insert, in whole seconds: SQLite stores it as \<^verbatim>\<open>YYYY-MM-DD HH:MM:SS\<close>, whose text
  order is the order of the seconds.
\<close>

record plan_row =
  row_id :: int
  row_goal :: string
  row_plan :: string
  created_at :: int

text \<open>
  The database file: the rows in rowid order and the counter that \<^verbatim>\<open>AUTOINCREMENT\<close>
  keeps in \<^verbatim>\<open>sqlite_sequence\<close>.
\<close>

record database =
  plans :: "plan_row list"
  sqlite_sequence :: int

text \<open>\<^verbatim>\<open>CREATE TABLE IF NOT EXISTS\<close>: \<open>None\<close> is a file without the table.\<close>

fun init_db :: "database option \<Rightarrow> database" where
  "init_db None = \<lparr>plans = [], sqlite_sequence = 0\<rparr>"
| "init_db (Some db) = db"

definition save_plan :: "string \<Rightarrow> string \<Rightarrow> int \<Rightarrow> database \<Rightarrow> database" where
  "save_plan goal plan now db =
     (let i = sqlite_sequence db + 1
      in \<lparr>plans = plans db @ [\<lparr>row_id = i, row_goal = goal, row_plan = plan, created_at = now\<rparr>],
          sqlite_sequence = i\<rparr>)"

text \<open>
  What \<^verbatim>\<open>ORDER BY created_at DESC\<close> promises of a result: the rows of the table, with
  \<open>created_at\<close> never increasing. SQL leaves the order of rows with equal keys open.
\<close>

definition order_by_created_at_desc :: "plan_row list \<Rightarrow> plan_row list \<Rightarrow> bool" where
  "order_by_created_at_desc table result =
     (mset result = mset table \<and> sorted_wrt (\<lambda>a b. created_at b \<le> created_at a) result)"

text \<open>
  \<^verbatim>\<open>get_all_plans\<close>, with the sort that SQLite runs: rows with equal \<open>created_at\<close> stay in
  table order.
\<close>

definition get_all_plans :: "database \<Rightarrow> plan_row list" where
  "get_all_plans db = sort_key (\<lambda>r. - created_at r) (plans db)"

section \<open>The script\<close>

text \<open>
  Everything the script does to the outside, in order: what it shows through Streamlit,
  the call of the agent executor and the call of \<^verbatim>\<open>save_plan\<close>.
\<close>

datatype effect =
    StError string
  | StTitle string
  | StMarkdown string
  | StWrite string
  | StSuccess string
  | StInfo string
  | StExpander string int
  | AgentInvoke string
  | SavePlan string string

text \<open>How a run of the script ends: at its last line, at \<^verbatim>\<open>st.stop()\<close>, or with an exception.\<close>

datatype ending = Finished | Stopped | Raised exn

record outcome =
  effects :: "effect list"
  db :: "database option"
  ending :: ending

text \<open>
  The inputs of one run of the script: the parsed \<^verbatim>\<open>secrets.toml\<close> (\<open>None\<close> when no
  secrets file exists), what \<^verbatim>\<open>os.getenv\<close> returns at lines 18 to 20, the widgets' values,
  the database file, the clock, and \<^verbatim>\<open>agent_executor.invoke\<close> (the library's loop, a
  parameter: it returns the response dict or raises).
\<close>

record world =
  secrets :: "(string \<rightharpoonup> string) option"
  environ :: "string \<rightharpoonup> string"
  page :: string
  goal_input :: string
  generate_clicked :: bool
  db_file :: "database option"
  clock :: int
  agent_invoke :: "string \<Rightarrow> exn + (string \<rightharpoonup> string)"

text \<open>
  \<^verbatim>\<open>st.secrets.get(k)\<close>: Streamlit parses the secrets file at the first access and raises
  \<^verbatim>\<open>StreamlitSecretNotFoundError\<close> when there is none; with a file, a missing key gives
  \<^verbatim>\<open>None\<close>.
\<close>

definition secrets_get :: "world \<Rightarrow> string \<Rightarrow> exn + string option" where
  "secrets_get W k =
     (case secrets W of
        None \<Rightarrow> Inl StreamlitSecretNotFoundError
      | Some toml \<Rightarrow> Inr (toml k))"

text \<open>\<^verbatim>\<open>st.secrets.get(k) or os.getenv(k)\<close>.\<close>

definition credential :: "world \<Rightarrow> string \<Rightarrow> exn + string option" where
  "credential W k =
     (case secrets_get W k of
        Inl e \<Rightarrow> Inl e
      | Inr v \<Rightarrow> Inr (if truthy_str v then v else environ W k))"

text \<open>A credential that was read and is a non-empty string.\<close>

fun provided :: "exn + string option \<Rightarrow> bool" where
  "provided (Inr v) = truthy_str v"
| "provided (Inl e) = False"

text \<open>An exception that no statement catches ends the script where it is raised.\<close>

definition uncaught :: "world \<Rightarrow> exn \<Rightarrow> outcome" where
  "uncaught W e = \<lparr>effects = [], db = db_file W, ending = Raised e\<rparr>"

text \<open>Lines 160 to 173.\<close>

definition new_plan_page :: "world \<Rightarrow> database \<Rightarrow> outcome" where
  "new_plan_page W d =
     (let goal = goal_input W in
      if generate_clicked W then
        if goal \<noteq> [] then
          (case agent_invoke W goal of
             Inl e \<Rightarrow>
               \<lparr>effects = [StTitle ''AI Task Planner'', AgentInvoke goal],
                db = Some d, ending = Raised e\<rparr>
           | Inr response \<Rightarrow>
               (case response ''output'' of
                  None \<Rightarrow>
                    \<lparr>effects = [StTitle ''AI Task Planner'', AgentInvoke goal],
                     db = Some d, ending = Raised (KeyError ''output'')\<rparr>
                | Some plan \<Rightarrow>
                    \<lparr>effects = [StTitle ''AI Task Planner'', AgentInvoke goal,
                                StMarkdown ''### Generated Plan'', StWrite plan,
                                SavePlan goal plan, StSuccess ''Plan saved!''],
                     db = Some (save_plan goal plan (clock W) d), ending = Finished\<rparr>))
        else
          \<lparr>effects = [StTitle ''AI Task Planner'', StError ''Please enter a goal.''],
           db = Some d, ending = Finished\<rparr>
      else \<lparr>effects = [StTitle ''AI Task Planner''], db = Some d, ending = Finished\<rparr>)"

text \<open>Lines 175 to 182.\<close>

definition view_history_page :: "database \<Rightarrow> outcome" where
  "view_history_page d =
     (let all_plans = get_all_plans d in
      if all_plans \<noteq> [] then
        \<lparr>effects = StTitle ''AI Task Planner'' #
           concat (map (\<lambda>r. [StExpander (row_goal r) (created_at r), StWrite (row_plan r)]) all_plans),
         db = Some d, ending = Finished\<rparr>
      else
        \<lparr>effects = [StTitle ''AI Task Planner'', StInfo ''No plans saved yet.''],
         db = Some d, ending = Finished\<rparr>)"

text \<open>
  The whole of \<^verbatim>\<open>app.py\<close>, top to bottom. The constructors of lines 27 to 31 and 114 to
  118 build the model client, the tools, the prompt and the executor and call nothing
  outside, so they leave no effect; \<^verbatim>\<open>init_db\<close> runs at line 137, after the check of the
  credentials.
\<close>

definition app :: "world \<Rightarrow> outcome" where
  "app W =
     (case credential W ''GROQ_API_KEY'' of Inl e \<Rightarrow> uncaught W e | Inr groq_key \<Rightarrow>
     (case credential W ''SERPER_API_KEY'' of Inl e \<Rightarrow> uncaught W e | Inr serper_key \<Rightarrow>
     (case credential W ''OPENWEATHER_API_KEY'' of Inl e \<Rightarrow> uncaught W e | Inr openweather_key \<Rightarrow>
        if \<not> (truthy_str groq_key \<and> truthy_str serper_key \<and>
                truthy_str openweather_key)
        then
          \<lparr>effects = [StError ''Missing API keys. Please set GROQ_API_KEY, SERPER_API_KEY, and OPENWEATHER_API_KEY.''],
           db = db_file W, ending = Stopped\<rparr>
        else
          (let d = init_db (db_file W) in
           if page W = ''New Plan'' then new_plan_page W d
           else if page W = ''View History'' then view_history_page d
           else \<lparr>effects = [StTitle ''AI Task Planner''], db = Some d, ending = Finished\<rparr>))))"

text \<open>The calls of \<^verbatim>\<open>save_plan\<close> and of the agent executor among the effects of a run.\<close>

fun saved :: "effect list \<Rightarrow> (string \<times> string) list" where
  "saved [] = []"
| "saved (SavePlan g p # es) = (g, p) # saved es"
| "saved (e # es) = saved es"

fun agent_calls :: "effect list \<Rightarrow> string list" where
  "agent_calls [] = []"
| "agent_calls (AgentInvoke g # es) = g # agent_calls es"
| "agent_calls (e # es) = agent_calls es"

section \<open>Example inputs\<close>

text \<open>A small library and forecast, used to run the definitions on concrete inputs.\<close>

definition example_entry :: "int \<Rightarrow> int \<Rightarrow> string \<Rightarrow> int \<Rightarrow> json" where
  "example_entry dt temp description humidity =
     JObj [(''dt'', JInt dt),
           (''main'', JObj [(''temp'', JInt temp), (''humidity'', JInt humidity)]),
           (''weather'', JArr [JObj [(''description'', JStr description)]])]"

fun example_field :: "json \<Rightarrow> string" where
  "example_field (JStr s) = s"
| "example_field (JInt i) = str_int i"
| "example_field _ = ''?''"

fun example_dumps :: "json \<Rightarrow> string" where
  "example_dumps (JObj kvs) = concat (map (\<lambda>kv. fst kv @ ''='' @ example_field (snd kv) @ '';'') kvs)"
| "example_dumps _ = ''?''"

fun example_fromtimestamp :: "json \<Rightarrow> exn + datetime" where
  "example_fromtimestamp (JInt i) = Inr i"
| "example_fromtimestamp _ = Inl TypeError"

definition example_library :: "(string \<Rightarrow> exn + response) \<Rightarrow> library" where
  "example_library get =
     \<lparr>requests_get = get,
      strptime = (\<lambda>s. if s = ''2024-01-02'' then Some 200 else None),
      fromtimestamp = example_fromtimestamp,
      strftime = str_int,
      dumps = example_dumps,
      OPENWEATHER_API_KEY = ''k''\<rparr>"

definition example_forecasts :: "json list" where
  "example_forecasts =
     [example_entry 400 18 ''rain'' 90, example_entry 100 21 ''clear sky'' 40,
      example_entry 300 25 ''few clouds'' 55]"

definition example_get :: "string \<Rightarrow> exn + response" where
  "example_get url =
     Inr \<lparr>status_code = 200, json_body = Inr (JObj [(''list'', JArr example_forecasts)])\<rparr>"

definition example_get_404 :: "string \<Rightarrow> exn + response" where
  "example_get_404 url = Inr \<lparr>status_code = 404, json_body = Inl JSONDecodeError\<rparr>"

definition example_get_empty_list :: "string \<Rightarrow> exn + response" where
  "example_get_empty_list url =
     Inr \<lparr>status_code = 200, json_body = Inr (JObj [(''cod'', JStr ''200''), (''list'', JArr [])])\<rparr>"




definition example_environ :: "string \<rightharpoonup> string" where
  "example_environ =
     [''GROQ_API_KEY'' \<mapsto> ''gsk'', ''SERPER_API_KEY'' \<mapsto> ''srp'', ''OPENWEATHER_API_KEY'' \<mapsto> ''owm'']"

definition example_world :: "(string \<rightharpoonup> string) \<Rightarrow> (string \<Rightarrow> exn + (string \<rightharpoonup> string)) \<Rightarrow> world" where
  "example_world env invoke =
     \<lparr>secrets = Some Map.empty, environ = env, page = ''New Plan'',
      goal_input = ''Plan a 1-day trip to Pune'', generate_clicked = True,
      db_file = None, clock = 1000, agent_invoke = invoke\<rparr>"


definition example_agent_done :: "string \<Rightarrow> exn + (string \<rightharpoonup> string)" where
  "example_agent_done goal = Inr [''input'' \<mapsto> goal, ''output'' \<mapsto> ''Day 1: Shaniwar Wada'']"

definition example_agent_stopped :: "string \<Rightarrow> exn + (string \<rightharpoonup> string)" where
  "example_agent_stopped goal =
     Inr [''input'' \<mapsto> goal, ''output'' \<mapsto> ''Agent stopped due to iteration limit or time limit.'']"

definition example_agent_raises :: "string \<Rightarrow> exn + (string \<rightharpoonup> string)" where
  "example_agent_raises goal = Inl (RuntimeError ''rate limit reached'')"


definition example_same_second :: database where
  "example_same_second =
     save_plan ''second goal'' ''second plan'' 1000
       (save_plan ''first goal'' ''first plan'' 1000 (init_db None))"

definition example_next_second :: database where
  "example_next_second =
     save_plan ''second goal'' ''second plan'' 1001
       (save_plan ''first goal'' ''first plan'' 1000 (init_db None))"

section \<open>Properties of the builtins\<close>

lemma min_loop_some:
  assumes "\<forall>x\<in>set xs. key x = Inr (d x)"
  shows "(min_loop key (Some (b, vb)) xs = Inr (Some (b, vb)) \<and> (\<forall>x\<in>set xs. vb \<le> d x)) \<or>
         (\<exists>pre c post. xs = pre @ c # post \<and> min_loop key (Some (b, vb)) xs = Inr (Some (c, d c)) \<and>
            d c < vb \<and> (\<forall>x\<in>set pre. d c < d x) \<and> (\<forall>x\<in>set post. d c \<le> d x))"
  using assms
proof (induction xs arbitrary: b vb)
  case Nil
  then show ?case by simp
next
  case (Cons x xs)
  have kx: "key x = Inr (d x)" using Cons.prems by simp
  have rest: "\<forall>y\<in>set xs. key y = Inr (d y)" using Cons.prems by simp
  show ?case
  proof (cases "d x < vb")
    case True
    from Cons.IH[OF rest, of x "d x"]
    show ?thesis
    proof
      assume a: "min_loop key (Some (x, d x)) xs = Inr (Some (x, d x)) \<and> (\<forall>y\<in>set xs. d x \<le> d y)"
      have "x # xs = [] @ x # xs" by simp
      with a True kx show ?thesis
        by (intro disjI2 exI[of _ "[]"] exI[of _ x] exI[of _ xs]) simp
    next
      assume "\<exists>pre c post. xs = pre @ c # post \<and> min_loop key (Some (x, d x)) xs = Inr (Some (c, d c)) \<and>
            d c < d x \<and> (\<forall>x\<in>set pre. d c < d x) \<and> (\<forall>x\<in>set post. d c \<le> d x)"
      then obtain pre c post where p: "xs = pre @ c # post"
        "min_loop key (Some (x, d x)) xs = Inr (Some (c, d c))"
        "d c < d x" "\<forall>y\<in>set pre. d c < d y" "\<forall>y\<in>set post. d c \<le> d y" by blast
      with True kx show ?thesis
        by (intro disjI2 exI[of _ "x # pre"] exI[of _ c] exI[of _ post]) simp
    qed
  next
    case False
    from Cons.IH[OF rest, of b vb]
    show ?thesis
    proof
      assume a: "min_loop key (Some (b, vb)) xs = Inr (Some (b, vb)) \<and> (\<forall>y\<in>set xs. vb \<le> d y)"
      with False kx show ?thesis by (intro disjI1) simp
    next
      assume "\<exists>pre c post. xs = pre @ c # post \<and> min_loop key (Some (b, vb)) xs = Inr (Some (c, d c)) \<and>
            d c < vb \<and> (\<forall>x\<in>set pre. d c < d x) \<and> (\<forall>x\<in>set post. d c \<le> d x)"
      then obtain pre c post where p: "xs = pre @ c # post"
        "min_loop key (Some (b, vb)) xs = Inr (Some (c, d c))"
        "d c < vb" "\<forall>y\<in>set pre. d c < d y" "\<forall>y\<in>set post. d c \<le> d y" by blast
      with False kx show ?thesis
        by (intro disjI2 exI[of _ "x # pre"] exI[of _ c] exI[of _ post]) simp
    qed
  qed
qed

lemma py_min_first_minimal:
  assumes "\<forall>x\<in>set xs. key x = Inr (d x)" and "xs \<noteq> []"
  shows "\<exists>pre c post. xs = pre @ c # post \<and> py_min key xs = Inr (Some c) \<and>
            (\<forall>x\<in>set pre. d c < d x) \<and> (\<forall>x\<in>set post. d c \<le> d x)"
proof (cases xs)
  case Nil
  with assms show ?thesis by simp
next
  case (Cons x rest)
  have kx: "key x = Inr (d x)" using assms Cons by simp
  have r: "\<forall>y\<in>set rest. key y = Inr (d y)" using assms Cons by simp
  have unf: "min_loop key None xs = min_loop key (Some (x, d x)) rest"
    using Cons kx by simp
  from min_loop_some[OF r, of x "d x"] show ?thesis
  proof
    assume "min_loop key (Some (x, d x)) rest = Inr (Some (x, d x)) \<and> (\<forall>y\<in>set rest. d x \<le> d y)"
    with unf Cons show ?thesis
      by (intro exI[of _ "[]"] exI[of _ x] exI[of _ rest]) (simp add: py_min_def)
  next
    assume "\<exists>pre c post. rest = pre @ c # post \<and> min_loop key (Some (x, d x)) rest = Inr (Some (c, d c)) \<and>
            d c < d x \<and> (\<forall>x\<in>set pre. d c < d x) \<and> (\<forall>x\<in>set post. d c \<le> d x)"
    then obtain pre c post where p: "rest = pre @ c # post"
        "min_loop key (Some (x, d x)) rest = Inr (Some (c, d c))"
        "d c < d x" "\<forall>y\<in>set pre. d c < d y" "\<forall>y\<in>set post. d c \<le> d y" by blast
    with unf Cons show ?thesis
      by (intro exI[of _ "x # pre"] exI[of _ c] exI[of _ post]) (simp add: py_min_def)
  qed
qed

lemma subscript_Inr_truthy: "subscript f k = Inr v \<Longrightarrow> truthy f"
  by (cases f) (auto split: option.splits)

lemma forecast_summary_fields:
  assumes "subscript c ''dt'' = Inr ts" "fromtimestamp L ts = Inr d"
    "subscript c ''main'' = Inr m" "subscript m ''temp'' = Inr temp"
    "subscript m ''humidity'' = Inr humidity" "subscript c ''weather'' = Inr w"
    "subscript_0 w = Inr w0" "subscript w0 ''description'' = Inr description"
  shows "forecast_summary L c =
           Inr (dumps L (JObj [(''date'', JStr (strftime L d)), (''temp'', temp),
                               (''weather'', description), (''humidity'', humidity)]))"
  using assms by (simp add: forecast_summary_def)




lemma str_int_examples:
  "str_int 100 = ''100''" "str_int 21 = ''21''" "str_int 40 = ''40''" "str_int 404 = ''404''"
  by code_simp+

section \<open>The decimal rendering of an int\<close>

lemma digit_char: "(k::nat) < 10 \<Longrightarrow> (of_char (char_of (48 + k)) :: nat) = 48 + k"
  by simp

lemma digit_not_minus: "(k::nat) < 10 \<Longrightarrow> char_of (48 + k) \<noteq> CHR ''-''"
proof
  assume k: "k < 10" and "char_of (48 + k) = CHR ''-''"
  then have "(of_char (char_of (48 + k)) :: nat) = of_char CHR ''-''" by simp
  moreover have "(of_char (char_of (48 + k)) :: nat) = 48 + k" using k by (rule digit_char)
  ultimately show False by simp
qed

lemma nat_of_digits_snoc:
  "nat_of_digits (s @ [c]) = 10 * nat_of_digits s + (of_char c - 48)"
  by (simp add: nat_of_digits_def)

lemma nat_of_digits_str_nat: "nat_of_digits (str_nat n) = n"
proof (induction n rule: str_nat.induct)
  case (1 n)
  show ?case
  proof (cases "n < 10")
    case True
    then have "str_nat n = [char_of (48 + n)]" by (simp add: str_nat.simps)
    with True show ?thesis by (simp add: nat_of_digits_def)
  next
    case False
    then have s: "str_nat n = str_nat (n div 10) @ [char_of (48 + n mod 10)]"
      by (subst str_nat.simps) simp
    have "n mod 10 < 10" by simp
    then have d: "(of_char (char_of (48 + n mod 10)) :: nat) = 48 + n mod 10"
      by (rule digit_char)
    from False 1 have "nat_of_digits (str_nat (n div 10)) = n div 10" by simp
    then show ?thesis unfolding s nat_of_digits_snoc d by simp
  qed
qed

lemma str_nat_no_minus: "c \<in> set (str_nat n) \<Longrightarrow> c \<noteq> CHR ''-''"
proof (induction n rule: str_nat.induct)
  case (1 n)
  show ?case
  proof (cases "n < 10")
    case True
    then have "str_nat n = [char_of (48 + n)]" by (simp add: str_nat.simps)
    with 1(2) True show ?thesis by (simp add: digit_not_minus)
  next
    case False
    then have s: "str_nat n = str_nat (n div 10) @ [char_of (48 + n mod 10)]"
      by (subst str_nat.simps) simp
    have "char_of (48 + n mod 10) \<noteq> CHR ''-''" by (rule digit_not_minus) simp
    with 1 False s show ?thesis by auto
  qed
qed

lemma str_nat_not_Nil: "str_nat n \<noteq> []"
  by (subst str_nat.simps) simp

lemma int_of_str_str_nat: "int_of_str (str_nat n) = int n"
proof (cases "str_nat n")
  case Nil
  then show ?thesis using str_nat_not_Nil by simp
next
  case (Cons c cs)
  then have "c \<noteq> CHR ''-''" using str_nat_no_minus[of c n] by simp
  then have "int_of_str (c # cs) = int (nat_of_digits (c # cs))" by simp
  then show ?thesis using Cons nat_of_digits_str_nat[of n] by simp
qed

lemma int_of_str_str_int: "int_of_str (str_int i) = i"
proof (cases "i < 0")
  case True
  then show ?thesis by (simp add: str_int_def nat_of_digits_str_nat)
next
  case False
  then show ?thesis by (simp add: str_int_def int_of_str_str_nat)
qed

lemma str_int_inj: "str_int a = str_int b \<Longrightarrow> a = b"
  by (metis int_of_str_str_int)

section \<open>Where the exceptions of the weather tool come from\<close>













section \<open>The forecast entry that the weather tool selects\<close>

text \<open>
  C1. With a date that \<^verbatim>\<open>strptime\<close> accepts, a 200 response whose object carries a
  non-empty \<^verbatim>\<open>list\<close> of entries, each with a timestamp and the three fields,
  \<^verbatim>\<open>get_weather\<close> selects the entry \<open>c\<close> whose time is closest to the requested date:
  every entry before it in the list is strictly farther, every entry after it is at least
  as far (so the first of several equidistant entries wins), and the text returned is the
  dump of that entry's formatted timestamp, temperature, description and humidity.
\<close>

theorem get_weather_selects_closest:
  assumes date: "date \<noteq> []" "strptime L date = Some target_dt"
    and resp: "requests_get L (forecast_url L location) = Inr r" "status_code r = 200"
      "json_body r = Inr (JObj kvs)" "map_of kvs ''list'' = Some (JArr forecasts)"
    and ne: "forecasts \<noteq> []"
    and wf: "\<forall>f\<in>set forecasts.
        subscript f ''dt'' = Inr (ts f) \<and> fromtimestamp L (ts f) = Inr (tm f) \<and>
        subscript f ''main'' = Inr (mn f) \<and> subscript (mn f) ''temp'' = Inr (temp f) \<and>
        subscript (mn f) ''humidity'' = Inr (hum f) \<and> subscript f ''weather'' = Inr (w f) \<and>
        subscript_0 (w f) = Inr (w0 f) \<and> subscript (w0 f) ''description'' = Inr (desc f)"
  shows "\<exists>pre c post. forecasts = pre @ c # post \<and>
          (\<forall>f\<in>set pre. \<bar>tm c - target_dt\<bar> < \<bar>tm f - target_dt\<bar>) \<and>
          (\<forall>f\<in>set post. \<bar>tm c - target_dt\<bar> \<le> \<bar>tm f - target_dt\<bar>) \<and>
          get_weather L location (Some date) =
            Inr (dumps L (JObj [(''date'', JStr (strftime L (tm c))), (''temp'', temp c),
                                (''weather'', desc c), (''humidity'', hum c)]))"
proof -
  have key: "\<forall>f\<in>set forecasts. time_distance L target_dt f = Inr \<bar>tm f - target_dt\<bar>"
  proof
    fix f assume "f \<in> set forecasts"
    with wf have "subscript f ''dt'' = Inr (ts f)" "fromtimestamp L (ts f) = Inr (tm f)"
      by blast+
    then show "time_distance L target_dt f = Inr \<bar>tm f - target_dt\<bar>"
      by (simp add: time_distance_def)
  qed
  from py_min_first_minimal[OF key ne]
  obtain pre c post where sel: "forecasts = pre @ c # post"
    "py_min (time_distance L target_dt) forecasts = Inr (Some c)"
    "\<forall>f\<in>set pre. \<bar>tm c - target_dt\<bar> < \<bar>tm f - target_dt\<bar>"
    "\<forall>f\<in>set post. \<bar>tm c - target_dt\<bar> \<le> \<bar>tm f - target_dt\<bar>"
    by blast
  have cin: "c \<in> set forecasts" using sel(1) by simp
  from bspec[OF wf cin] have c: "subscript c ''dt'' = Inr (ts c)" "fromtimestamp L (ts c) = Inr (tm c)"
        "subscript c ''main'' = Inr (mn c)" "subscript (mn c) ''temp'' = Inr (temp c)"
        "subscript (mn c) ''humidity'' = Inr (hum c)" "subscript c ''weather'' = Inr (w c)"
        "subscript_0 (w c) = Inr (w0 c)" "subscript (w0 c) ''description'' = Inr (desc c)"
    by simp_all
  have tr: "truthy c" using c(1) by (rule subscript_Inr_truthy)
  have summ: "forecast_summary L c =
      Inr (dumps L (JObj [(''date'', JStr (strftime L (tm c))), (''temp'', temp c),
                          (''weather'', desc c), (''humidity'', hum c)]))"
    by (rule forecast_summary_fields[OF c])
  have it: "get_list (JObj kvs) = Inr (JArr forecasts)" using resp(4) by simp
  have br: "forecast_branch L date (JObj kvs) = forecast_summary L c"
    unfolding forecast_branch_def using date(2) it sel(2) tr by simp
  have url: "request_url L location (Some date) = forecast_url L location"
    using date(1) by (simp add: request_url_def)
  have "get_weather L location (Some date) = forecast_summary L c"
    unfolding get_weather_def url using date(1) resp(1,2,3) br by simp
  then have "get_weather L location (Some date) =
      Inr (dumps L (JObj [(''date'', JStr (strftime L (tm c))), (''temp'', temp c),
                          (''weather'', desc c), (''humidity'', hum c)]))"
    using summ by simp
  with sel(1,3,4) show ?thesis
    by (intro exI[of _ pre] exI[of _ c] exI[of _ post] conjI)
qed


text \<open>
  The theorem at a forecast with timestamps 400, 100 and 300 and the requested date at
  200: the entries at 100 and at 300 are equally close, and the first of them is reported.
\<close>

theorem get_weather_selects_closest_witness:
  "get_weather (example_library example_get) ''Pune'' (Some ''2024-01-02'') =
     Inr ''date=100;temp=21;weather=clear sky;humidity=40;''"
proof -
  define L where "L = example_library example_get"
  define ts where "ts = (\<lambda>f. projr (subscript f ''dt''))"
  define tm where "tm = (\<lambda>f. projr (example_fromtimestamp (ts f)))"
  define mn where "mn = (\<lambda>f. projr (subscript f ''main''))"
  define temp where "temp = (\<lambda>f. projr (subscript (mn f) ''temp''))"
  define hum where "hum = (\<lambda>f. projr (subscript (mn f) ''humidity''))"
  define w where "w = (\<lambda>f. projr (subscript f ''weather''))"
  define w0 where "w0 = (\<lambda>f. projr (subscript_0 (w f)))"
  define desc where "desc = (\<lambda>f. projr (subscript (w0 f) ''description''))"
  define e1 where "e1 = example_entry 400 18 ''rain'' 90"
  define e2 where "e2 = example_entry 100 21 ''clear sky'' 40"
  define e3 where "e3 = example_entry 300 25 ''few clouds'' 55"
  note defs = L_def ts_def tm_def mn_def temp_def hum_def w_def w0_def desc_def
    example_library_def example_get_def example_entry_def e1_def e2_def e3_def
  have fs: "example_forecasts = [e1, e2, e3]"
    by (simp add: example_forecasts_def e1_def e2_def e3_def)
  have t: "tm e1 = 400" "tm e2 = 100" "tm e3 = 300"
    by (simp_all add: defs)
  have h1: "''2024-01-02'' \<noteq> []" by simp
  have h2: "strptime L ''2024-01-02'' = Some 200" by (simp add: defs)
  have h3: "requests_get L (forecast_url L ''Pune'') =
      Inr \<lparr>status_code = 200, json_body = Inr (JObj [(''list'', JArr example_forecasts)])\<rparr>"
    by (simp add: L_def example_library_def example_get_def)
  have h4: "status_code \<lparr>status_code = 200, json_body = Inr (JObj [(''list'', JArr example_forecasts)])\<rparr> = 200"
    by simp
  have h5: "json_body \<lparr>status_code = 200, json_body = Inr (JObj [(''list'', JArr example_forecasts)])\<rparr>
      = Inr (JObj [(''list'', JArr example_forecasts)])"
    by simp
  have h6: "map_of [(''list'', JArr example_forecasts)] ''list'' = Some (JArr example_forecasts)"
    by simp
  have h7: "example_forecasts \<noteq> []" by (simp add: fs)
  have h8: "\<forall>f\<in>set example_forecasts.
        subscript f ''dt'' = Inr (ts f) \<and> fromtimestamp L (ts f) = Inr (tm f) \<and>
        subscript f ''main'' = Inr (mn f) \<and> subscript (mn f) ''temp'' = Inr (temp f) \<and>
        subscript (mn f) ''humidity'' = Inr (hum f) \<and> subscript f ''weather'' = Inr (w f) \<and>
        subscript_0 (w f) = Inr (w0 f) \<and> subscript (w0 f) ''description'' = Inr (desc f)"
    unfolding fs by (simp add: defs)
  from get_weather_selects_closest[OF h1 h2 h3 h4 h5 h6 h7 h8]
  obtain pre c post where sel: "example_forecasts = pre @ c # post"
    "\<forall>f\<in>set pre. \<bar>tm c - 200\<bar> < \<bar>tm f - 200\<bar>"
    "\<forall>f\<in>set post. \<bar>tm c - 200\<bar> \<le> \<bar>tm f - 200\<bar>"
    "get_weather L ''Pune'' (Some ''2024-01-02'') =
       Inr (dumps L (JObj [(''date'', JStr (strftime L (tm c))), (''temp'', temp c),
                           (''weather'', desc c), (''humidity'', hum c)]))"
    by blast
  from sel(1) have "(pre = [] \<and> c = e1 \<and> post = [e2, e3]) \<or> (pre = [e1] \<and> c = e2 \<and> post = [e3]) \<or>
      (pre = [e1, e2] \<and> c = e3 \<and> post = [])"
    unfolding fs by (auto simp: Cons_eq_append_conv)
  with sel(2,3) t have c: "c = e2" by auto
  have "dumps L (JObj [(''date'', JStr (strftime L (tm e2))), (''temp'', temp e2),
                           (''weather'', desc e2), (''humidity'', hum e2)])
      = ''date=100;temp=21;weather=clear sky;humidity=40;''"
    unfolding t by (simp add: defs str_int_examples)
  with sel(4) c show ?thesis by (simp add: L_def)
qed


section \<open>Responses that are not a forecast\<close>

text \<open>
  C4. Whenever \<^verbatim>\<open>requests.get\<close> returns a response whose status code is not 200,
  \<^verbatim>\<open>get_weather\<close> returns the text \<^verbatim>\<open>Error fetching weather: \<close> followed by the status code
  in decimal, and raises nothing. The text carries the code: reading the decimal text back
  gives the status code, and no other number is rendered as the same text. The date is
  arbitrary, so this covers the current-conditions endpoint (no date, or an empty one) and
  the forecast endpoint.
\<close>

theorem get_weather_non_200:
  assumes "requests_get L (request_url L location date) = Inr r" and "status_code r \<noteq> 200"
  shows "get_weather L location date =
           Inr (''Error fetching weather: '' @ str_int (status_code r)) \<and>
         int_of_str (str_int (status_code r)) = status_code r \<and>
         (\<forall>c. str_int c = str_int (status_code r) \<longrightarrow> c = status_code r)"
  using assms by (simp add: get_weather_def int_of_str_str_int str_int_inj)

text \<open>A 404 from either endpoint.\<close>

theorem get_weather_non_200_witness:
  "get_weather (example_library example_get_404) ''Pune'' None = Inr ''Error fetching weather: 404'' \<and>
   get_weather (example_library example_get_404) ''Pune'' (Some ''2024-01-02'') =
     Inr ''Error fetching weather: 404'' \<and>
   int_of_str ''404'' = 404"
proof -
  have a: "requests_get (example_library example_get_404) (request_url (example_library example_get_404) ''Pune'' d)
      = Inr \<lparr>status_code = 404, json_body = Inl JSONDecodeError\<rparr>" for d
    by (simp add: example_library_def example_get_404_def)
  have b: "status_code \<lparr>status_code = 404, json_body = Inl JSONDecodeError\<rparr> \<noteq> 200" by simp
  show ?thesis
    using get_weather_non_200[OF a b, of None] get_weather_non_200[OF a b, of "Some ''2024-01-02''"]
    by (simp add: str_int_examples)
qed

text \<open>
  C5, as stated, fails: the date is parsed at line 49, before the forecast list is read at
  line 50, so a date that \<^verbatim>\<open>strptime\<close> rejects makes \<^verbatim>\<open>get_weather\<close> raise the
  \<^verbatim>\<open>ValueError\<close> although the forecast list is empty.
\<close>

theorem malformed_date_empty_forecast_counterexample:
  "get_weather (example_library example_get_empty_list) ''Pune'' (Some ''tomorrow'') =
     Inl (ValueError ''tomorrow'')"
  by (simp add: get_weather_def request_url_def forecast_branch_def example_library_def
      example_get_empty_list_def)

text \<open>
  C5, amended. With a date that \<^verbatim>\<open>strptime\<close> accepts and a 200 response whose object has
  an empty \<^verbatim>\<open>list\<close> (or none, which \<^verbatim>\<open>data.get('list', [])\<close> makes empty), \<^verbatim>\<open>get_weather\<close>
  returns the text \<^verbatim>\<open>No forecast available.\<close> and raises nothing.
\<close>

theorem get_weather_empty_forecast:
  assumes "date \<noteq> []" and "strptime L date = Some target_dt"
    and "requests_get L (forecast_url L location) = Inr r" and "status_code r = 200"
    and "json_body r = Inr (JObj kvs)"
    and "map_of kvs ''list'' = Some (JArr []) \<or> map_of kvs ''list'' = None"
  shows "get_weather L location (Some date) = Inr ''No forecast available.''"
proof -
  have it: "get_list (JObj kvs) = Inr (JArr [])" using assms(6) by auto
  have br: "forecast_branch L date (JObj kvs) = Inr ''No forecast available.''"
    unfolding forecast_branch_def using assms(2) it by (simp add: py_min_def)
  have url: "request_url L location (Some date) = forecast_url L location"
    using assms(1) by (simp add: request_url_def)
  show ?thesis
    unfolding get_weather_def url using assms(1,3,4,5) br by simp
qed

text \<open>An empty forecast for a well-formed date.\<close>

theorem get_weather_empty_forecast_witness:
  "get_weather (example_library example_get_empty_list) ''Pune'' (Some ''2024-01-02'') =
     Inr ''No forecast available.''"
proof -
  let ?L = "example_library example_get_empty_list"
  let ?r = "\<lparr>status_code = 200, json_body = Inr (JObj [(''cod'', JStr ''200''), (''list'', JArr [])])\<rparr>"
  have h1: "''2024-01-02'' \<noteq> []" by simp
  have h2: "strptime ?L ''2024-01-02'' = Some 200" by (simp add: example_library_def)
  have h3: "requests_get ?L (forecast_url ?L ''Pune'') = Inr ?r"
    by (simp add: example_library_def example_get_empty_list_def)
  have h4: "status_code ?r = 200" by simp
  have h5: "json_body ?r = Inr (JObj [(''cod'', JStr ''200''), (''list'', JArr [])])" by simp
  have h6: "map_of [(''cod'', JStr ''200''), (''list'', JArr [])] ''list'' = Some (JArr []) \<or>
            map_of [(''cod'', JStr ''200''), (''list'', JArr [])] ''list'' = None" by simp
  show ?thesis by (rule get_weather_empty_forecast[OF h1 h2 h3 h4 h5 h6])
qed



section \<open>Failures of the underlying calls\<close>




section \<open>Start-up without credentials\<close>




section \<open>When a plan is saved\<close>

lemma app_new_plan:
  assumes "provided (credential W ''GROQ_API_KEY'')"
    and "provided (credential W ''SERPER_API_KEY'')"
    and "provided (credential W ''OPENWEATHER_API_KEY'')"
    and "page W = ''New Plan''"
  shows "app W = new_plan_page W (init_db (db_file W))"
proof -
  from assms(1) obtain a where a: "credential W ''GROQ_API_KEY'' = Inr a" "truthy_str a"
    by (cases "credential W ''GROQ_API_KEY''") auto
  from assms(2) obtain b where b: "credential W ''SERPER_API_KEY'' = Inr b" "truthy_str b"
    by (cases "credential W ''SERPER_API_KEY''") auto
  from assms(3) obtain c where c: "credential W ''OPENWEATHER_API_KEY'' = Inr c" "truthy_str c"
    by (cases "credential W ''OPENWEATHER_API_KEY''") auto
  show ?thesis
    unfolding app_def a(1) b(1) c(1) using a(2) b(2) c(2) assms(4) by simp
qed

text \<open>
  C6, as stated, fails: the script saves whatever output \<^verbatim>\<open>agent_executor.invoke\<close> returns.
  When the run could not finish and the executor returns its stop message as the output,
  that message is shown, stored as a plan and reported as saved.
\<close>

theorem stop_message_saved_counterexample:
  "saved (effects (app (example_world example_environ example_agent_stopped))) =
     [(''Plan a 1-day trip to Pune'', ''Agent stopped due to iteration limit or time limit.'')] \<and>
   db (app (example_world example_environ example_agent_stopped)) =
     Some \<lparr>plans = [\<lparr>row_id = 1, row_goal = ''Plan a 1-day trip to Pune'',
                      row_plan = ''Agent stopped due to iteration limit or time limit.'',
                      created_at = 1000\<rparr>],
           sqlite_sequence = 1\<rparr> \<and>
   ending (app (example_world example_environ example_agent_stopped)) = Finished"
  by (simp add: app_def new_plan_page_def example_world_def example_environ_def credential_def
      secrets_get_def example_agent_stopped_def save_plan_def Let_def)

text \<open>
  C6, amended. In a planning run (credentials present, page \<^verbatim>\<open>New Plan\<close>, button clicked,
  goal not empty) the agent executor is called once, and \<^verbatim>\<open>save_plan\<close> is called exactly
  once, with the goal and \<^verbatim>\<open>response['output']\<close>, when and only when
  \<^verbatim>\<open>agent_executor.invoke\<close> returns a response that has an output; the script does not look
  at what the output says. When the call raises (or the response has no output), nothing
  is saved and the exception ends the script.
\<close>

theorem plan_saved_iff_invoke_returns:
  assumes "provided (credential W ''GROQ_API_KEY'')"
    and "provided (credential W ''SERPER_API_KEY'')"
    and "provided (credential W ''OPENWEATHER_API_KEY'')"
    and "page W = ''New Plan''" and "generate_clicked W" and "goal_input W \<noteq> []"
  shows "agent_calls (effects (app W)) = [goal_input W] \<and>
    (case agent_invoke W (goal_input W) of
       Inl e \<Rightarrow>
         saved (effects (app W)) = [] \<and> db (app W) = Some (init_db (db_file W)) \<and>
         ending (app W) = Raised e
     | Inr response \<Rightarrow>
         (case response ''output'' of
            None \<Rightarrow>
              saved (effects (app W)) = [] \<and> db (app W) = Some (init_db (db_file W)) \<and>
              ending (app W) = Raised (KeyError ''output'')
          | Some plan \<Rightarrow>
              saved (effects (app W)) = [(goal_input W, plan)] \<and>
              db (app W) =
                Some (save_plan (goal_input W) plan (clock W) (init_db (db_file W))) \<and>
              ending (app W) = Finished))"
  unfolding app_new_plan[OF assms(1-4)] new_plan_page_def using assms(5,6)
  by (simp add: Let_def split: sum.splits option.splits)

text \<open>A run that returns a plan, and a run that raises.\<close>

theorem plan_saved_iff_invoke_returns_witness:
  "saved (effects (app (example_world example_environ example_agent_done))) =
     [(''Plan a 1-day trip to Pune'', ''Day 1: Shaniwar Wada'')] \<and>
   ending (app (example_world example_environ example_agent_done)) = Finished \<and>
   saved (effects (app (example_world example_environ example_agent_raises))) = [] \<and>
   ending (app (example_world example_environ example_agent_raises)) =
     Raised (RuntimeError ''rate limit reached'')"
proof -
  have h: "provided (credential (example_world example_environ i) ''GROQ_API_KEY'')"
    "provided (credential (example_world example_environ i) ''SERPER_API_KEY'')"
    "provided (credential (example_world example_environ i) ''OPENWEATHER_API_KEY'')"
    "page (example_world example_environ i) = ''New Plan''"
    "generate_clicked (example_world example_environ i)"
    "goal_input (example_world example_environ i) \<noteq> []" for i
    by (simp_all add: example_world_def example_environ_def credential_def secrets_get_def)
  have a: "agent_invoke (example_world example_environ example_agent_done)
      ''Plan a 1-day trip to Pune'' =
      Inr [''input'' \<mapsto> ''Plan a 1-day trip to Pune'', ''output'' \<mapsto> ''Day 1: Shaniwar Wada'']"
    by (simp add: example_world_def example_agent_done_def)
  have b: "agent_invoke (example_world example_environ example_agent_raises)
      ''Plan a 1-day trip to Pune'' =
      Inl (RuntimeError ''rate limit reached'')"
    by (simp add: example_world_def example_agent_raises_def)
  have g: "goal_input (example_world example_environ i) = ''Plan a 1-day trip to Pune''" for i
    by (simp add: example_world_def)
  from plan_saved_iff_invoke_returns[OF h, of example_agent_done]
       plan_saved_iff_invoke_returns[OF h, of example_agent_raises]
  show ?thesis by (simp add: g a b)
qed

section \<open>The order of the history\<close>

lemma get_all_plans_order: "order_by_created_at_desc (plans d) (get_all_plans d)"
proof -
  have "sorted (map (\<lambda>r. - created_at r) (get_all_plans d))"
    by (simp add: get_all_plans_def)
  then have "sorted_wrt (\<lambda>a b. - created_at a \<le> - created_at b) (get_all_plans d)"
    by (simp add: sorted_map)
  then have "sorted_wrt (\<lambda>a b. created_at b \<le> created_at a) (get_all_plans d)"
    by simp
  then show ?thesis
    by (simp add: order_by_created_at_desc_def get_all_plans_def)
qed

lemma two_members_split:
  assumes "x \<in> set l" and "y \<in> set l" and "x \<noteq> y"
  shows "(\<exists>a b c. l = a @ x # b @ y # c) \<or> (\<exists>a b c. l = a @ y # b @ x # c)"
proof -
  from assms(1) obtain a rest where l: "l = a @ x # rest" by (auto dest: split_list)
  with assms(2,3) have "y \<in> set a \<or> y \<in> set rest" by auto
  then show ?thesis
  proof
    assume "y \<in> set a"
    then obtain a1 a2 where "a = a1 @ y # a2" by (auto dest: split_list)
    with l have "l = a1 @ y # a2 @ x # rest" by simp
    then show ?thesis by blast
  next
    assume "y \<in> set rest"
    then obtain r1 r2 where "rest = r1 @ y # r2" by (auto dest: split_list)
    with l have "l = a @ x # r1 @ y # r2" by simp
    then show ?thesis by blast
  qed
qed

lemma plans_save_plan:
  "plans (save_plan g p t d) =
     plans d @ [\<lparr>row_id = sqlite_sequence d + 1, row_goal = g, row_plan = p, created_at = t\<rparr>]"
  "sqlite_sequence (save_plan g p t d) = sqlite_sequence d + 1"
  by (simp_all add: save_plan_def Let_def)

text \<open>
  C7, as stated, fails: \<open>created_at\<close> has a resolution of one second, so two plans saved
  within the same second carry equal keys, \<^verbatim>\<open>ORDER BY created_at DESC\<close> does not separate
  them, and \<^verbatim>\<open>get_all_plans\<close> lists the older one first.
\<close>

theorem same_second_oldest_first_counterexample:
  "get_all_plans example_same_second =
     [\<lparr>row_id = 1, row_goal = ''first goal'', row_plan = ''first plan'', created_at = 1000\<rparr>,
      \<lparr>row_id = 2, row_goal = ''second goal'', row_plan = ''second plan'', created_at = 1000\<rparr>] \<and>
   order_by_created_at_desc (plans example_same_second)
     [\<lparr>row_id = 1, row_goal = ''first goal'', row_plan = ''first plan'', created_at = 1000\<rparr>,
      \<lparr>row_id = 2, row_goal = ''second goal'', row_plan = ''second plan'', created_at = 1000\<rparr>]"
  by (simp add: get_all_plans_def example_same_second_def plans_save_plan
      order_by_created_at_desc_def)

text \<open>
  C7, amended. When the clock has advanced between two consecutive calls of \<^verbatim>\<open>save_plan\<close>
  (the second row's \<open>created_at\<close> is later than the first's), every result that
  \<^verbatim>\<open>ORDER BY created_at DESC\<close> admits holds both rows with the newer one before the older
  one; on a table that was empty before, the result is exactly the newer row followed by
  the older row.
\<close>

theorem newest_first_when_clock_advances:
  assumes "t1 < t2"
    and "order_by_created_at_desc (plans (save_plan g2 p2 t2 (save_plan g1 p1 t1 d))) result"
  shows "(\<exists>xs ys zs. result =
            xs @ \<lparr>row_id = sqlite_sequence d + 2, row_goal = g2, row_plan = p2, created_at = t2\<rparr> #
            ys @ \<lparr>row_id = sqlite_sequence d + 1, row_goal = g1, row_plan = p1, created_at = t1\<rparr> # zs) \<and>
         (plans d = [] \<longrightarrow> result =
            [\<lparr>row_id = sqlite_sequence d + 2, row_goal = g2, row_plan = p2, created_at = t2\<rparr>,
             \<lparr>row_id = sqlite_sequence d + 1, row_goal = g1, row_plan = p1, created_at = t1\<rparr>])"
proof -
  let ?r1 = "\<lparr>row_id = sqlite_sequence d + 1, row_goal = g1, row_plan = p1, created_at = t1\<rparr>"
  let ?r2 = "\<lparr>row_id = sqlite_sequence d + 2, row_goal = g2, row_plan = p2, created_at = t2\<rparr>"
  have tbl: "plans (save_plan g2 p2 t2 (save_plan g1 p1 t1 d)) = plans d @ [?r1, ?r2]"
    by (simp add: plans_save_plan)
  from assms(2) have ms: "mset result = mset (plans d @ [?r1, ?r2])"
    and srt: "sorted_wrt (\<lambda>a b. created_at b \<le> created_at a) result"
    unfolding tbl by (simp_all add: order_by_created_at_desc_def)
  from ms have "set result = set (plans d @ [?r1, ?r2])" by (rule mset_eq_setD)
  then have in1: "?r1 \<in> set result" and in2: "?r2 \<in> set result" by simp_all
  have ne: "?r2 \<noteq> ?r1" by simp
  have no: "\<not> (\<exists>a b c. result = a @ ?r1 # b @ ?r2 # c)"
  proof
    assume "\<exists>a b c. result = a @ ?r1 # b @ ?r2 # c"
    then obtain a b c where "result = a @ ?r1 # b @ ?r2 # c" by blast
    with srt have "created_at ?r2 \<le> created_at ?r1"
      by (simp add: sorted_wrt_append)
    with assms(1) show False by simp
  qed
  from two_members_split[OF in2 in1 ne] no
  have dec: "\<exists>xs ys zs. result = xs @ ?r2 # ys @ ?r1 # zs" by blast
  have fresh: "result = [?r2, ?r1]" if "plans d = []"
  proof -
    from dec obtain xs ys zs where r: "result = xs @ ?r2 # ys @ ?r1 # zs" by blast
    from ms that have "size (mset result) = 2" by simp
    then have "length result = 2" by simp
    with r have "xs = [] \<and> ys = [] \<and> zs = []" by simp
    with r show ?thesis by simp
  qed
  from dec fresh show ?thesis by blast
qed

text \<open>Two plans saved one second apart into a new database.\<close>

theorem newest_first_when_clock_advances_witness:
  "get_all_plans example_next_second =
     [\<lparr>row_id = 2, row_goal = ''second goal'', row_plan = ''second plan'', created_at = 1001\<rparr>,
      \<lparr>row_id = 1, row_goal = ''first goal'', row_plan = ''first plan'', created_at = 1000\<rparr>]"
proof -
  have h1: "(1000::int) < 1001" by simp
  have h2: "order_by_created_at_desc
      (plans (save_plan ''second goal'' ''second plan'' 1001
         (save_plan ''first goal'' ''first plan'' 1000 (init_db None))))
      (get_all_plans example_next_second)"
    using get_all_plans_order[of example_next_second] by (simp add: example_next_second_def)
  from newest_first_when_clock_advances[OF h1 h2] show ?thesis by simp
qed


end
